theory Spec2Isabelle
  imports Main "HOL-Library.Word"
begin

section \<open>Machine types and the fixed layout (uio\_htif.h)\<close>

text \<open>
  \<open>addr_t\<close> is fesvr's \<open>reg_t\<close>, a \<open>uint64_t\<close>; \<open>size_t\<close> is the 64-bit unsigned type
  of the Linux hosts the UIO device exists on (the source prints it with \<open>%lx\<close>). On
  both, \<open>+\<close> and \<open>-\<close> wrap around modulo \<open>2 ^ 64\<close>, as they do on \<open>64 word\<close>. The
  macros are non-negative literals that the comparisons convert to 64 bits.
\<close>

type_synonym addr_t = "64 word"
type_synonym size_t = "64 word"
type_synonym byte = "8 word"

definition UIO_DRAM_OFFSET :: size_t where
  "UIO_DRAM_OFFSET = 0x00000000"

definition UIO_BOOTROM_OFFSET :: size_t where
  "UIO_BOOTROM_OFFSET = 0x3fffc000"

definition UIO_CLINT_OFFSET :: size_t where
  "UIO_CLINT_OFFSET = 0x3fffe000"

definition ROCKET_BOOTROM_BASE :: addr_t where
  "ROCKET_BOOTROM_BASE = 0x1000"

definition ROCKET_CLINT_BASE :: addr_t where
  "ROCKET_CLINT_BASE = 0x2000000"

definition ROCKET_DRAM_BASE :: addr_t where
  "ROCKET_DRAM_BASE = 0x80000000"

definition MAP_FAILED :: "64 word" where
  "MAP_FAILED = - 1"

definition nullptr :: "64 word" where
  "nullptr = 0"

section \<open>The object and its surroundings\<close>

text \<open>The four private fields of \<open>uio_htif_t\<close>.\<close>

record uio_htif =
  uio_base :: "64 word"
  uio_size :: size_t
  uio_fd :: int
  dram_size :: size_t

text \<open>What the source prints on \<open>stderr\<close>, one constructor per \<open>fprintf\<close>.\<close>

datatype msg =
    Warn_unmapped addr_t
  | Err_opening string
  | Err_mapping string
  | Msg_mapped string "64 word" size_t
  | Err_read_oob addr_t size_t
  | Err_write_oob addr_t size_t
  | Err_clear_oob addr_t size_t
  | Msg_trigger addr_t size_t

text \<open>
  What the process does to the outside, in order: the system calls, the copies from and
  to the mapped window, and the full memory barrier \<open>__sync_synchronize\<close>.
\<close>

datatype event =
    Sys_open string
  | Sys_mmap size_t int
  | Sys_munmap "64 word" size_t
  | Sys_close int
  | Load size_t size_t
  | Store size_t "byte list"
  | Zero size_t size_t
  | Fence

text \<open>
  How an operation can end other than by returning: a C++ exception, or the process
  being stopped inside \<open>memcpy\<close> or \<open>memset\<close> because the copy leaves the memory it may
  touch (undefined behaviour in C++; on Linux, \<open>SIGSEGV\<close>).
\<close>

datatype exn = Runtime_error string | Memory_fault

text \<open>
  The surroundings of the object. \<open>window p\<close> is the byte at \<open>(uint8_t* )uio_base + p\<close>:
  the bytes of the mapping, addressed by their offset from its base. Only the offsets
  below \<open>uio_size\<close> are mapped; the copy functions below fault on every other one.
  \<open>os_open\<close> and \<open>os_mmap\<close> are the operating system's answers to the two calls that
  can fail; \<open>open_fds\<close> and \<open>mappings\<close> are the descriptors and mappings the process
  holds.
\<close>

record world =
  window :: "size_t \<Rightarrow> byte"
  stderr :: "msg list"
  trace :: "event list"
  open_fds :: "int set"
  mappings :: "(64 word \<times> size_t) set"
  os_open :: "string \<Rightarrow> int"
  os_mmap :: "size_t \<Rightarrow> int \<Rightarrow> 64 word"

definition fprintf :: "msg \<Rightarrow> world \<Rightarrow> world" where
  "fprintf m w = w\<lparr>stderr := stderr w @ [m]\<rparr>"

definition fprintfs :: "msg list \<Rightarrow> world \<Rightarrow> world" where
  "fprintfs ms w = w\<lparr>stderr := stderr w @ ms\<rparr>"

definition emit :: "event \<Rightarrow> world \<Rightarrow> world" where
  "emit e w = w\<lparr>trace := trace w @ [e]\<rparr>"

definition sys_open :: "string \<Rightarrow> world \<Rightarrow> int \<times> world" where
  "sys_open path w =
     (let fd = os_open w path; w1 = emit (Sys_open path) w
      in (fd, if 0 \<le> fd then w1\<lparr>open_fds := insert fd (open_fds w1)\<rparr> else w1))"

definition sys_mmap :: "size_t \<Rightarrow> int \<Rightarrow> world \<Rightarrow> 64 word \<times> world" where
  "sys_mmap n fd w =
     (let p = os_mmap w n fd; w1 = emit (Sys_mmap n fd) w
      in (p, if p \<noteq> MAP_FAILED then w1\<lparr>mappings := insert (p, n) (mappings w1)\<rparr> else w1))"

definition sys_munmap :: "64 word \<Rightarrow> size_t \<Rightarrow> world \<Rightarrow> world" where
  "sys_munmap p n w = (emit (Sys_munmap p n) w)\<lparr>mappings := mappings w - {(p, n)}\<rparr>"

definition sys_close :: "int \<Rightarrow> world \<Rightarrow> world" where
  "sys_close fd w = (emit (Sys_close fd) w)\<lparr>open_fds := open_fds w - {fd}\<rparr>"

text \<open>
  \<open>memcpy\<close> out of and into the window and \<open>memset\<close> with 0, on a mapping of \<open>n\<close>
  bytes. The range \<open>off, \<dots>, off + len - 1\<close> must lie inside the mapping, and the source
  of a copy into the window must hold \<open>len\<close> bytes; otherwise the call does not return
  (\<open>None\<close>). Inside the mapping the bytes are copied one by one.
\<close>

definition in_mapping :: "size_t \<Rightarrow> size_t \<Rightarrow> size_t \<Rightarrow> bool" where
  "in_mapping n off len = (unat off + unat len \<le> unat n)"

definition memcpy_from :: "size_t \<Rightarrow> (size_t \<Rightarrow> byte) \<Rightarrow> size_t \<Rightarrow> size_t \<Rightarrow> byte list option" where
  "memcpy_from n m off len =
     (if in_mapping n off len then Some (map (\<lambda>i. m (off + of_nat i)) [0..<unat len])
      else None)"

definition memcpy_to ::
  "size_t \<Rightarrow> (size_t \<Rightarrow> byte) \<Rightarrow> size_t \<Rightarrow> size_t \<Rightarrow> byte list \<Rightarrow> (size_t \<Rightarrow> byte) option" where
  "memcpy_to n m off len src =
     (if in_mapping n off len \<and> unat len \<le> length src
      then Some (\<lambda>p. if p - off < len then src ! unat (p - off) else m p)
      else None)"

definition memset0 :: "size_t \<Rightarrow> (size_t \<Rightarrow> byte) \<Rightarrow> size_t \<Rightarrow> size_t \<Rightarrow> (size_t \<Rightarrow> byte) option" where
  "memset0 n m off len =
     (if in_mapping n off len then Some (\<lambda>p. if p - off < len then 0 else m p)
      else None)"

section \<open>Opening and closing the mapping\<close>

text \<open>The constructor's member initialisers (uio\_htif.cc, lines 11 to 16).\<close>

definition constructed :: uio_htif where
  "constructed = \<lparr>uio_base = nullptr, uio_size = 0, uio_fd = - 1, dram_size = 0\<rparr>"

definition map_uio_device :: "uio_htif \<Rightarrow> string \<Rightarrow> size_t \<Rightarrow> world \<Rightarrow> (bool \<times> uio_htif) \<times> world" where
  "map_uio_device h uio_device sz w =
     (let (fd, w1) = sys_open uio_device w;
          h1 = h\<lparr>uio_fd := fd\<rparr>
      in if fd < 0 then ((False, h1), fprintf (Err_opening uio_device) w1)
         else
           let (p, w2) = sys_mmap sz fd w1;
               h2 = h1\<lparr>uio_base := p\<rparr>
           in if p = MAP_FAILED then
                let w3 = fprintf (Err_mapping uio_device) w2;
                    w4 = sys_close fd w3
                in ((False, h2\<lparr>uio_fd := - 1\<rparr>), w4)
              else
                let h3 = h2\<lparr>uio_size := sz\<rparr>
                in ((True, h3), fprintf (Msg_mapped uio_device p sz) w2))"

definition unmap_uio :: "uio_htif \<Rightarrow> world \<Rightarrow> uio_htif \<times> world" where
  "unmap_uio h w =
     (let (h1, w1) =
            (if uio_base h \<noteq> nullptr \<and> uio_base h \<noteq> MAP_FAILED
             then (h\<lparr>uio_base := nullptr\<rparr>, sys_munmap (uio_base h) (uio_size h) w)
             else (h, w))
      in if 0 \<le> uio_fd h1 then (h1\<lparr>uio_fd := - 1\<rparr>, sys_close (uio_fd h1) w1)
         else (h1, w1))"

section \<open>Translation and validation\<close>

text \<open>
  Both functions read the object and print; they change nothing else. Each returns its
  C++ result together with the lines it prints on \<open>stderr\<close>, which the callers append
  with \<open>fprintfs\<close>.
\<close>

definition rocket_addr_to_uio_offset :: "addr_t \<Rightarrow> size_t \<times> msg list" where
  "rocket_addr_to_uio_offset rocket_addr =
     (if ROCKET_BOOTROM_BASE \<le> rocket_addr \<and> rocket_addr < ROCKET_BOOTROM_BASE + 0x2000
      then (UIO_BOOTROM_OFFSET + (rocket_addr - ROCKET_BOOTROM_BASE), [])
      else if ROCKET_CLINT_BASE \<le> rocket_addr \<and> rocket_addr < ROCKET_CLINT_BASE + 0x10000
      then (UIO_CLINT_OFFSET + (rocket_addr - ROCKET_CLINT_BASE), [])
      else if ROCKET_DRAM_BASE \<le> rocket_addr
      then (UIO_DRAM_OFFSET + (rocket_addr - ROCKET_DRAM_BASE), [])
      else (0, [Warn_unmapped rocket_addr]))"

definition is_valid_address :: "uio_htif \<Rightarrow> addr_t \<Rightarrow> size_t \<Rightarrow> bool \<times> msg list" where
  "is_valid_address h rocket_addr len =
     (let (uio_offset, ms) = rocket_addr_to_uio_offset rocket_addr
      in if uio_offset + len > uio_size h then (False, ms)
         else if ROCKET_BOOTROM_BASE \<le> rocket_addr \<and> rocket_addr < ROCKET_BOOTROM_BASE + 0x2000
         then (rocket_addr + len \<le> ROCKET_BOOTROM_BASE + 0x2000, ms)
         else if ROCKET_CLINT_BASE \<le> rocket_addr \<and> rocket_addr < ROCKET_CLINT_BASE + 0x10000
         then (rocket_addr + len \<le> ROCKET_CLINT_BASE + 0x10000, ms)
         else if ROCKET_DRAM_BASE \<le> rocket_addr
         then (rocket_addr - ROCKET_DRAM_BASE + len \<le> dram_size h, ms)
         else (False, ms))"

section \<open>The access operations\<close>

text \<open>
  A \<open>throw\<close> is the left summand; the world comes back in both cases, so that what an
  operation did before it threw stays visible. The destination buffer of \<open>read_chunk\<close>
  is the list it returns; the source buffer of \<open>write_chunk\<close> is the list of the bytes
  at \<open>src\<close>. The copies run on the \<open>uio_size\<close> bytes mapped at \<open>uio_base\<close>. When a
  copy faults the operation ends with \<open>Memory_fault\<close>: neither the store event nor the
  fence follows, and the world that comes back is the one from before the copy (which
  bytes a copy stopped half-way had already stored is not recorded).
\<close>

definition read_chunk :: "uio_htif \<Rightarrow> addr_t \<Rightarrow> size_t \<Rightarrow> world \<Rightarrow> (exn + byte list) \<times> world" where
  "read_chunk h taddr len w =
     (let (ok, ms) = is_valid_address h taddr len;
          w1 = fprintfs ms w
      in if \<not> ok then
           (Inl (Runtime_error ''Read address out of bounds''),
            fprintf (Err_read_oob taddr len) w1)
         else
           let (uio_offset, ms2) = rocket_addr_to_uio_offset taddr;
               w2 = fprintfs ms2 w1
           in case memcpy_from (uio_size h) (window w2) uio_offset len of
                None \<Rightarrow> (Inl Memory_fault, w2)
              | Some dst \<Rightarrow> (Inr dst, emit (Load uio_offset len) w2))"

definition write_chunk :: "uio_htif \<Rightarrow> addr_t \<Rightarrow> size_t \<Rightarrow> byte list \<Rightarrow> world \<Rightarrow> (exn + unit) \<times> world" where
  "write_chunk h taddr len src w =
     (let (ok, ms) = is_valid_address h taddr len;
          w1 = fprintfs ms w
      in if \<not> ok then
           (Inl (Runtime_error ''Write address out of bounds''),
            fprintf (Err_write_oob taddr len) w1)
         else
           let (uio_offset, ms2) = rocket_addr_to_uio_offset taddr;
               w2 = fprintfs ms2 w1
           in case memcpy_to (uio_size h) (window w2) uio_offset len src of
                None \<Rightarrow> (Inl Memory_fault, w2)
              | Some m \<Rightarrow>
                  let w3 = emit (Store uio_offset (take (unat len) src)) (w2\<lparr>window := m\<rparr>);
                      w4 = emit Fence w3
                  in (Inr (), w4))"

definition clear_chunk :: "uio_htif \<Rightarrow> addr_t \<Rightarrow> size_t \<Rightarrow> world \<Rightarrow> (exn + unit) \<times> world" where
  "clear_chunk h taddr len w =
     (let (ok, ms) = is_valid_address h taddr len;
          w1 = fprintfs ms w
      in if \<not> ok then
           (Inl (Runtime_error ''Clear address out of bounds''),
            fprintf (Err_clear_oob taddr len) w1)
         else
           let (uio_offset, ms2) = rocket_addr_to_uio_offset taddr;
               w2 = fprintfs ms2 w1
           in case memset0 (uio_size h) (window w2) uio_offset len of
                None \<Rightarrow> (Inl Memory_fault, w2)
              | Some m \<Rightarrow>
                  let w3 = emit (Zero uio_offset len) (w2\<lparr>window := m\<rparr>);
                      w4 = emit Fence w3
                  in (Inr (), w4))"

text \<open>
  The four bytes of a \<open>uint32_t\<close> as \<open>memcpy\<close> sees them on the little-endian hosts
  (x86-64, AArch64) the tool runs on, and the value four such bytes hold.
\<close>

definition bytes_of_uint32 :: "32 word \<Rightarrow> byte list" where
  "bytes_of_uint32 v = map (\<lambda>i. ucast (drop_bit (8 * i) v)) [0, 1, 2, 3]"

definition uint32_of_bytes :: "byte list \<Rightarrow> 32 word" where
  "uint32_of_bytes bs = foldr (\<lambda>b acc. ucast b + push_bit 8 acc) bs 0"

definition reset :: "uio_htif \<Rightarrow> world \<Rightarrow> (exn + unit) \<times> world" where
  "reset h w =
     (let one = (1 :: 32 word);
          msip_addr = ROCKET_CLINT_BASE;
          (off, ms) = rocket_addr_to_uio_offset msip_addr;
          w1 = fprintf (Msg_trigger msip_addr off) (fprintfs ms w)
      in write_chunk h msip_addr 4 (bytes_of_uint32 one) w1)"

text \<open>The sizes \<open>parse_uio_args\<close> falls back to (lines 49 to 57).\<close>

definition default_total_size :: size_t where
  "default_total_size = 0x40000000"

definition default_dram_size :: size_t where
  "default_dram_size = UIO_BOOTROM_OFFSET"

section \<open>The contract of the specification, in exact arithmetic\<close>

text \<open>
  The three regions, as the branches of the translation tell them apart, and the
  specification's \<open>validate\<close> written with natural numbers, where sums do not wrap:
  the address translates to a region, the translated offset plus the length stays
  within the window, and the address plus the length stays within the region.
\<close>

datatype region = Boot_rom | Interrupt_control | Main_memory

definition region_of :: "addr_t \<Rightarrow> region option" where
  "region_of a =
     (if ROCKET_BOOTROM_BASE \<le> a \<and> a < ROCKET_BOOTROM_BASE + 0x2000 then Some Boot_rom
      else if ROCKET_CLINT_BASE \<le> a \<and> a < ROCKET_CLINT_BASE + 0x10000 then Some Interrupt_control
      else if ROCKET_DRAM_BASE \<le> a then Some Main_memory
      else None)"

definition region_end :: "uio_htif \<Rightarrow> region \<Rightarrow> nat" where
  "region_end h r =
     (case r of
        Boot_rom \<Rightarrow> unat ROCKET_BOOTROM_BASE + 0x2000
      | Interrupt_control \<Rightarrow> unat ROCKET_CLINT_BASE + 0x10000
      | Main_memory \<Rightarrow> unat ROCKET_DRAM_BASE + unat (dram_size h))"

definition spec_validate :: "uio_htif \<Rightarrow> addr_t \<Rightarrow> size_t \<Rightarrow> bool" where
  "spec_validate h a len =
     (case region_of a of
        None \<Rightarrow> False
      | Some r \<Rightarrow>
          unat (fst (rocket_addr_to_uio_offset a)) + unat len \<le> unat (uio_size h) \<and>
          unat a + unat len \<le> region_end h r)"

text \<open>
  None of the sums that \<open>is_valid_address\<close> forms leaves 64 bits: the translated
  offset plus the length on every path, and the address plus the length on the boot-ROM
  and interrupt-control paths (the main-memory path forms no other sum).
\<close>

definition no_wrap :: "addr_t \<Rightarrow> size_t \<Rightarrow> bool" where
  "no_wrap a len =
     (unat (fst (rocket_addr_to_uio_offset a)) + unat len < 2 ^ 64 \<and>
      (region_of a = Some Main_memory \<or> unat a + unat len < 2 ^ 64))"

text \<open>The largest transfer the class declares to its driver (uio\_htif.h, line 38).\<close>

definition chunk_max_size :: size_t where
  "chunk_max_size = 1024 * 1024"

section \<open>A concrete instance\<close>

text \<open>
  The object after a successful start with the default sizes, in a world whose window
  holds zeros, and the same object behind a window of one page (\<open>+uio_size=0x1000\<close>).
\<close>

definition default_htif :: uio_htif where
  "default_htif =
     \<lparr>uio_base = 0x7f0000000000, uio_size = default_total_size, uio_fd = 3,
      dram_size = default_dram_size\<rparr>"

definition small_htif :: uio_htif where
  "small_htif = default_htif\<lparr>uio_size := 0x1000\<rparr>"

definition quiet_world :: world where
  "quiet_world =
     \<lparr>window = (\<lambda>_. 0), stderr = [], trace = [], open_fds = {3},
      mappings = {(0x7f0000000000, default_total_size)},
      os_open = (\<lambda>_. 4), os_mmap = (\<lambda>_ _. MAP_FAILED)\<rparr>"

text \<open>A source buffer of \<open>len\<close> zero bytes.\<close>

definition zero_buffer :: "size_t \<Rightarrow> byte list" where
  "zero_buffer len = replicate (unat len) 0"

definition small_world :: world where
  "small_world = quiet_world\<lparr>mappings := {(0x7f0000000000, 0x1000)}\<rparr>"

section \<open>Facts about translation and validation\<close>

lemmas layout_defs = UIO_DRAM_OFFSET_def UIO_BOOTROM_OFFSET_def UIO_CLINT_OFFSET_def
  ROCKET_BOOTROM_BASE_def ROCKET_CLINT_BASE_def ROCKET_DRAM_BASE_def

lemmas instance_defs = default_htif_def small_htif_def default_total_size_def default_dram_size_def

text \<open>
  Translation prints the warning exactly on the fall-through path, and validation prints
  what its one call of the translation prints.
\<close>

lemma translation_prints:
  "snd (rocket_addr_to_uio_offset a) = (if region_of a = None then [Warn_unmapped a] else [])"
  by (simp add: rocket_addr_to_uio_offset_def region_of_def)

lemma validation_prints:
  "snd (is_valid_address h a len) = snd (rocket_addr_to_uio_offset a)"
  by (simp add: is_valid_address_def case_prod_beta)

text \<open>
  Both functions, read off by the region whose branch the address takes. The sums are
  those of the code, on 64-bit words.
\<close>

lemma translation_by_region:
  "fst (rocket_addr_to_uio_offset a) =
     (case region_of a of
        None \<Rightarrow> 0
      | Some Boot_rom \<Rightarrow> UIO_BOOTROM_OFFSET + (a - ROCKET_BOOTROM_BASE)
      | Some Interrupt_control \<Rightarrow> UIO_CLINT_OFFSET + (a - ROCKET_CLINT_BASE)
      | Some Main_memory \<Rightarrow> a - ROCKET_DRAM_BASE)"
  by (simp add: rocket_addr_to_uio_offset_def region_of_def UIO_DRAM_OFFSET_def)

lemma validation_by_region:
  "fst (is_valid_address h a len) =
     (fst (rocket_addr_to_uio_offset a) + len \<le> uio_size h \<and>
      (case region_of a of
         None \<Rightarrow> False
       | Some Boot_rom \<Rightarrow> a + len \<le> ROCKET_BOOTROM_BASE + 0x2000
       | Some Interrupt_control \<Rightarrow> a + len \<le> ROCKET_CLINT_BASE + 0x10000
       | Some Main_memory \<Rightarrow> a - ROCKET_DRAM_BASE + len \<le> dram_size h))"
  by (auto simp: is_valid_address_def region_of_def case_prod_beta)

lemma unmapped_invalid:
  "region_of a = None \<Longrightarrow> \<not> fst (is_valid_address h a len)"
  by (simp add: validation_by_region)

lemma region_of_cases:
  "region_of a = Some Boot_rom \<longleftrightarrow> 0x1000 \<le> unat a \<and> unat a < 0x3000"
  "region_of a = Some Interrupt_control \<longleftrightarrow> 0x2000000 \<le> unat a \<and> unat a < 0x2010000"
  "region_of a = Some Main_memory \<longleftrightarrow> 0x80000000 \<le> unat a"
  "region_of a = None \<longleftrightarrow> unat a < 0x1000 \<or> (0x3000 \<le> unat a \<and> unat a < 0x2000000) \<or> (0x2010000 \<le> unat a \<and> unat a < 0x80000000)"
  by (auto simp: region_of_def layout_defs word_le_nat_alt word_less_nat_alt)

lemma add_le_exact:
  fixes x y z :: "64 word"
  assumes "unat x + unat y < 2 ^ 64"
  shows "(x + y \<le> z) = (unat x + unat y \<le> unat z)"
proof -
  have "unat (x + y) = unat x + unat y"
    using assms by (simp add: unat_add_lem [THEN iffD1])
  then show ?thesis by (simp add: word_le_nat_alt)
qed

lemma unat_dram_offset:
  assumes "region_of a = Some Main_memory"
  shows "unat (a - ROCKET_DRAM_BASE) = unat a - unat ROCKET_DRAM_BASE"
    and "unat ROCKET_DRAM_BASE \<le> unat a"
proof -
  from assms have "ROCKET_DRAM_BASE \<le> a"
    by (simp add: region_of_def split: if_splits)
  then show "unat (a - ROCKET_DRAM_BASE) = unat a - unat ROCKET_DRAM_BASE"
    by (rule unat_sub)
  from \<open>ROCKET_DRAM_BASE \<le> a\<close> show "unat ROCKET_DRAM_BASE \<le> unat a"
    by (simp add: word_le_nat_alt)
qed

text \<open>
  As long as none of its sums wraps, \<open>is_valid_address\<close> decides exactly the
  specification's contract. Every transfer within \<open>chunk_max_size\<close> is of that kind,
  and a transfer accepted without a wrap lies inside the window.
\<close>

lemma validate_exact:
  assumes nw: "no_wrap a len"
  shows "fst (is_valid_address h a len) = spec_validate h a len"
proof (cases "region_of a")
  case None
  then show ?thesis by (simp add: validation_by_region spec_validate_def)
next
  case (Some r)
  from nw have w1: "unat (fst (rocket_addr_to_uio_offset a)) + unat len < 2 ^ 64"
    and w2: "r \<noteq> Main_memory \<Longrightarrow> unat a + unat len < 2 ^ 64"
    by (simp_all add: no_wrap_def Some)
  note win = add_le_exact [OF w1]
  show ?thesis
  proof (cases r)
    case Boot_rom
    with Some w2 show ?thesis
      by (simp add: validation_by_region spec_validate_def region_end_def win
          add_le_exact ROCKET_BOOTROM_BASE_def)
  next
    case Interrupt_control
    with Some w2 show ?thesis
      by (simp add: validation_by_region spec_validate_def region_end_def win
          add_le_exact ROCKET_CLINT_BASE_def)
  next
    case Main_memory
    with Some have reg: "region_of a = Some Main_memory" by simp
    have off: "fst (rocket_addr_to_uio_offset a) = a - ROCKET_DRAM_BASE"
      by (simp add: translation_by_region reg)
    from w1 have w3: "unat (a - ROCKET_DRAM_BASE) + unat len < 2 ^ 64"
      by (simp add: off)
    have "(a - ROCKET_DRAM_BASE + len \<le> dram_size h) =
          (unat a + unat len \<le> unat ROCKET_DRAM_BASE + unat (dram_size h))"
      using unat_dram_offset [OF reg] by (simp add: add_le_exact [OF w3]) arith
    with reg show ?thesis
      by (simp add: validation_by_region spec_validate_def region_end_def win)
  qed
qed

lemma capped_no_wrap:
  assumes "len \<le> chunk_max_size"
  shows "no_wrap a len"
proof -
  from assms have l: "unat len \<le> 1048576"
    by (simp add: chunk_max_size_def word_le_nat_alt)
  have a: "unat a < 2 ^ 64" using unsigned_less [of a] by simp
  show ?thesis
  proof (cases "region_of a")
    case None
    then have "unat a < 0x80000000" by (auto simp: region_of_cases)
    with None l show ?thesis by (simp add: no_wrap_def translation_by_region)
  next
    case (Some r)
    then show ?thesis
    proof (cases r)
      case Boot_rom
      with Some have "region_of a = Some Boot_rom" by simp
      moreover from this have "0x1000 \<le> unat a \<and> unat a < 0x3000" by (simp add: region_of_cases)
      moreover from this have "unat (UIO_BOOTROM_OFFSET + (a - ROCKET_BOOTROM_BASE)) < 0x40000000"
        unfolding layout_defs by unat_arith
      ultimately show ?thesis using l by (simp add: no_wrap_def translation_by_region)
    next
      case Interrupt_control
      with Some have "region_of a = Some Interrupt_control" by simp
      moreover from this have "0x2000000 \<le> unat a \<and> unat a < 0x2010000" by (simp add: region_of_cases)
      moreover from this have "unat (UIO_CLINT_OFFSET + (a - ROCKET_CLINT_BASE)) < 0x50000000"
        unfolding layout_defs by unat_arith
      ultimately show ?thesis using l by (simp add: no_wrap_def translation_by_region)
    next
      case Main_memory
      with Some have reg: "region_of a = Some Main_memory" by simp
      from unat_dram_offset [OF reg] a l
      have "unat (a - ROCKET_DRAM_BASE) + unat len < 2 ^ 64"
        by (simp add: ROCKET_DRAM_BASE_def)
      with reg show ?thesis by (simp add: no_wrap_def translation_by_region)
    qed
  qed
qed

lemma valid_access_in_window:
  assumes "fst (is_valid_address h a len)" and "no_wrap a len"
  shows "unat (fst (rocket_addr_to_uio_offset a)) + unat len \<le> unat (uio_size h)"
proof -
  from assms have "spec_validate h a len" by (simp add: validate_exact)
  then show ?thesis by (simp add: spec_validate_def split: option.splits)
qed

section \<open>Facts about the access operations\<close>

lemma fprintfs_Nil: "fprintfs [] w = w"
  by (simp add: fprintfs_def)

lemma world_simps [simp]:
  "window (fprintf m w) = window w" "trace (fprintf m w) = trace w"
  "window (fprintfs ms w) = window w" "trace (fprintfs ms w) = trace w"
  "window (emit e w) = window w" "trace (emit e w) = trace w @ [e]"
  "stderr (emit e w) = stderr w" "stderr (fprintf m w) = stderr w @ [m]"
  "stderr (fprintfs ms w) = stderr w @ ms"
  by (simp_all add: fprintf_def fprintfs_def emit_def)

lemma valid_prints_nothing:
  assumes "fst (is_valid_address h a len)"
  shows "snd (is_valid_address h a len) = []" and "snd (rocket_addr_to_uio_offset a) = []"
proof -
  from assms have "region_of a \<noteq> None" using unmapped_invalid by blast
  then show "snd (rocket_addr_to_uio_offset a) = []" by (simp add: translation_prints)
  then show "snd (is_valid_address h a len) = []" by (simp add: validation_prints)
qed

lemma read_chunk_invalid:
  assumes "\<not> fst (is_valid_address h a len)"
  shows "read_chunk h a len w =
    (Inl (Runtime_error ''Read address out of bounds''),
     fprintf (Err_read_oob a len) (fprintfs (snd (is_valid_address h a len)) w))"
  using assms by (simp add: read_chunk_def case_prod_beta)

lemma write_chunk_invalid:
  assumes "\<not> fst (is_valid_address h a len)"
  shows "write_chunk h a len src w =
    (Inl (Runtime_error ''Write address out of bounds''),
     fprintf (Err_write_oob a len) (fprintfs (snd (is_valid_address h a len)) w))"
  using assms by (simp add: write_chunk_def case_prod_beta)

lemma clear_chunk_invalid:
  assumes "\<not> fst (is_valid_address h a len)"
  shows "clear_chunk h a len w =
    (Inl (Runtime_error ''Clear address out of bounds''),
     fprintf (Err_clear_oob a len) (fprintfs (snd (is_valid_address h a len)) w))"
  using assms by (simp add: clear_chunk_def case_prod_beta)

text \<open>
  An accepted access none of whose sums wraps lies inside the mapping.
\<close>

lemma valid_in_mapping:
  assumes "fst (is_valid_address h a len)" and "no_wrap a len"
  shows "in_mapping (uio_size h) (fst (rocket_addr_to_uio_offset a)) len"
  using valid_access_in_window [OF assms] by (simp add: in_mapping_def)

text \<open>
  The three operations on an accepted access: inside the mapping they return, outside
  of it they fault.
\<close>

lemma read_chunk_valid:
  assumes "fst (is_valid_address h a len)"
    and "in_mapping (uio_size h) (fst (rocket_addr_to_uio_offset a)) len"
  shows "read_chunk h a len w =
    (Inr (map (\<lambda>i. window w (fst (rocket_addr_to_uio_offset a) + of_nat i)) [0..<unat len]),
     emit (Load (fst (rocket_addr_to_uio_offset a)) len) w)"
  using assms valid_prints_nothing [OF assms(1)]
  by (simp add: read_chunk_def case_prod_beta fprintfs_Nil memcpy_from_def)

lemma write_chunk_valid:
  assumes "fst (is_valid_address h a len)"
    and "in_mapping (uio_size h) (fst (rocket_addr_to_uio_offset a)) len"
    and "unat len \<le> length src"
  shows "write_chunk h a len src w =
    (Inr (),
     emit Fence (emit (Store (fst (rocket_addr_to_uio_offset a)) (take (unat len) src))
       (w\<lparr>window := (\<lambda>p. if p - fst (rocket_addr_to_uio_offset a) < len
                           then src ! unat (p - fst (rocket_addr_to_uio_offset a))
                           else window w p)\<rparr>)))"
  using assms valid_prints_nothing [OF assms(1)]
  by (simp add: write_chunk_def case_prod_beta fprintfs_Nil memcpy_to_def Let_def cong: if_cong)

lemma clear_chunk_valid:
  assumes "fst (is_valid_address h a len)"
    and "in_mapping (uio_size h) (fst (rocket_addr_to_uio_offset a)) len"
  shows "clear_chunk h a len w =
    (Inr (),
     emit Fence (emit (Zero (fst (rocket_addr_to_uio_offset a)) len)
       (w\<lparr>window := (\<lambda>p. if p - fst (rocket_addr_to_uio_offset a) < len then 0
                           else window w p)\<rparr>)))"
  using assms valid_prints_nothing [OF assms(1)]
  by (simp add: clear_chunk_def case_prod_beta fprintfs_Nil memset0_def Let_def cong: if_cong)

lemma read_chunk_fault:
  assumes "fst (is_valid_address h a len)"
    and "\<not> in_mapping (uio_size h) (fst (rocket_addr_to_uio_offset a)) len"
  shows "read_chunk h a len w = (Inl Memory_fault, w)"
  using assms valid_prints_nothing [OF assms(1)]
  by (simp add: read_chunk_def case_prod_beta fprintfs_Nil memcpy_from_def)

lemma write_chunk_fault:
  assumes "fst (is_valid_address h a len)"
    and "\<not> in_mapping (uio_size h) (fst (rocket_addr_to_uio_offset a)) len"
  shows "write_chunk h a len src w = (Inl Memory_fault, w)"
  using assms valid_prints_nothing [OF assms(1)]
  by (simp add: write_chunk_def case_prod_beta fprintfs_Nil memcpy_to_def)

lemma clear_chunk_fault:
  assumes "fst (is_valid_address h a len)"
    and "\<not> in_mapping (uio_size h) (fst (rocket_addr_to_uio_offset a)) len"
  shows "clear_chunk h a len w = (Inl Memory_fault, w)"
  using assms valid_prints_nothing [OF assms(1)]
  by (simp add: clear_chunk_def case_prod_beta fprintfs_Nil memset0_def)

text \<open>The \<open>i\<close>-th byte of a range of \<open>len\<close> bytes at \<open>off\<close> is inside the range.\<close>

lemma range_hit:
  fixes off len :: size_t
  assumes "i < unat len"
  shows "(off + of_nat i) - off < len" and "unat ((off + of_nat i) - off) = i"
    and "(of_nat i :: size_t) < len" and "unat (of_nat i :: size_t) = i"
proof -
  have "unat len < 2 ^ 64" using unsigned_less [of len] by simp
  with assms have i64: "i < 2 ^ 64" by (rule less_trans)
  then show u: "unat (of_nat i :: size_t) = i"
    by (simp add: of_nat_inverse)
  with assms show l: "(of_nat i :: size_t) < len" by (simp add: word_less_nat_alt)
  from u show "unat ((off + of_nat i) - off) = i" by simp
  from l show "(off + of_nat i) - off < len" by simp
qed

text \<open>
  What holds of the code where the bounds check is sound. A rejected access throws and
  leaves window and trace as they were. An accepted access none of whose sums wraps
  (every access within \<open>chunk_max_size\<close> is one) returns: the read yields the \<open>len\<close>
  bytes at the translated offset; the write has stored the \<open>i\<close>-th source byte at offset
  plus \<open>i\<close> and changed no other byte; the clear has zeroed the range and changed no
  other byte; write and clear end with the fence. Writing and then reading the same
  range returns the source.
\<close>

lemma rejected_access_untouched:
  assumes "\<not> fst (is_valid_address h a len)"
  shows "fst (read_chunk h a len w) = Inl (Runtime_error ''Read address out of bounds'')"
    and "fst (write_chunk h a len src w) = Inl (Runtime_error ''Write address out of bounds'')"
    and "fst (clear_chunk h a len w) = Inl (Runtime_error ''Clear address out of bounds'')"
    and "window (snd (read_chunk h a len w)) = window w"
    and "window (snd (write_chunk h a len src w)) = window w"
    and "window (snd (clear_chunk h a len w)) = window w"
    and "trace (snd (read_chunk h a len w)) = trace w"
    and "trace (snd (write_chunk h a len src w)) = trace w"
    and "trace (snd (clear_chunk h a len w)) = trace w"
  by (simp_all add: read_chunk_invalid [OF assms] write_chunk_invalid [OF assms]
      clear_chunk_invalid [OF assms])

lemma accepted_read_completes:
  assumes "fst (is_valid_address h a len)" and "no_wrap a len"
  shows "\<exists>dst. fst (read_chunk h a len w) = Inr dst \<and> length dst = unat len \<and>
           (\<forall>i < unat len. dst ! i = window w (fst (rocket_addr_to_uio_offset a) + of_nat i))"
    and "window (snd (read_chunk h a len w)) = window w"
    and "trace (snd (read_chunk h a len w)) =
           trace w @ [Load (fst (rocket_addr_to_uio_offset a)) len]"
  by (simp_all add: read_chunk_valid [OF assms(1) valid_in_mapping [OF assms]])

lemma accepted_write_completes:
  assumes "fst (is_valid_address h a len)" and "no_wrap a len" and "unat len \<le> length src"
  shows "fst (write_chunk h a len src w) = Inr ()"
    and "\<forall>i < unat len.
           window (snd (write_chunk h a len src w)) (fst (rocket_addr_to_uio_offset a) + of_nat i)
             = src ! i"
    and "\<forall>p. \<not> p - fst (rocket_addr_to_uio_offset a) < len \<longrightarrow>
           window (snd (write_chunk h a len src w)) p = window w p"
    and "trace (snd (write_chunk h a len src w)) =
           trace w @ [Store (fst (rocket_addr_to_uio_offset a)) (take (unat len) src), Fence]"
proof -
  note wr = write_chunk_valid [OF assms(1) valid_in_mapping [OF assms(1,2)] assms(3)]
  show "fst (write_chunk h a len src w) = Inr ()"
    and "trace (snd (write_chunk h a len src w)) =
           trace w @ [Store (fst (rocket_addr_to_uio_offset a)) (take (unat len) src), Fence]"
    and "\<forall>p. \<not> p - fst (rocket_addr_to_uio_offset a) < len \<longrightarrow>
           window (snd (write_chunk h a len src w)) p = window w p"
    by (simp_all add: wr)
  show "\<forall>i < unat len.
           window (snd (write_chunk h a len src w)) (fst (rocket_addr_to_uio_offset a) + of_nat i)
             = src ! i"
  proof (intro allI impI)
    fix i assume "i < unat len"
    from range_hit(3,4) [OF this]
    show "window (snd (write_chunk h a len src w)) (fst (rocket_addr_to_uio_offset a) + of_nat i)
             = src ! i"
      by (simp add: wr)
  qed
qed

lemma accepted_clear_completes:
  assumes "fst (is_valid_address h a len)" and "no_wrap a len"
  shows "fst (clear_chunk h a len w) = Inr ()"
    and "\<forall>i < unat len.
           window (snd (clear_chunk h a len w)) (fst (rocket_addr_to_uio_offset a) + of_nat i) = 0"
    and "\<forall>p. \<not> p - fst (rocket_addr_to_uio_offset a) < len \<longrightarrow>
           window (snd (clear_chunk h a len w)) p = window w p"
    and "trace (snd (clear_chunk h a len w)) =
           trace w @ [Zero (fst (rocket_addr_to_uio_offset a)) len, Fence]"
proof -
  note cl = clear_chunk_valid [OF assms(1) valid_in_mapping [OF assms]]
  show "fst (clear_chunk h a len w) = Inr ()"
    and "trace (snd (clear_chunk h a len w)) =
           trace w @ [Zero (fst (rocket_addr_to_uio_offset a)) len, Fence]"
    and "\<forall>p. \<not> p - fst (rocket_addr_to_uio_offset a) < len \<longrightarrow>
           window (snd (clear_chunk h a len w)) p = window w p"
    by (simp_all add: cl)
  show "\<forall>i < unat len.
           window (snd (clear_chunk h a len w)) (fst (rocket_addr_to_uio_offset a) + of_nat i) = 0"
  proof (intro allI impI)
    fix i assume "i < unat len"
    from range_hit(3) [OF this]
    show "window (snd (clear_chunk h a len w)) (fst (rocket_addr_to_uio_offset a) + of_nat i) = 0"
      by (simp add: cl)
  qed
qed

lemma round_trip_in_mapping:
  assumes "fst (is_valid_address h a len)"
    and "in_mapping (uio_size h) (fst (rocket_addr_to_uio_offset a)) len"
    and "length src = unat len"
  shows "fst (write_chunk h a len src w) = Inr ()"
    and "fst (read_chunk h a len (snd (write_chunk h a len src w))) = Inr src"
proof -
  from assms(3) have l: "unat len \<le> length src" by simp
  show "fst (write_chunk h a len src w) = Inr ()"
    by (simp add: write_chunk_valid [OF assms(1,2) l])
  have "map (\<lambda>i. if (of_nat i :: size_t) < len then src ! unat (of_nat i :: size_t) else
                   window w (fst (rocket_addr_to_uio_offset a) + of_nat i)) [0..<unat len] = src"
    using assms(3) by (simp add: list_eq_iff_nth_eq range_hit(3,4))
  then show "fst (read_chunk h a len (snd (write_chunk h a len src w))) = Inr src"
    by (simp add: write_chunk_valid [OF assms(1,2) l] read_chunk_valid [OF assms(1,2)]
        cong: if_cong)
qed

lemma round_trip_without_wrap:
  assumes "fst (is_valid_address h a len)" and "no_wrap a len" and "length src = unat len"
  shows "fst (read_chunk h a len (snd (write_chunk h a len src w))) = Inr src"
  by (rule round_trip_in_mapping(2) [OF assms(1) valid_in_mapping [OF assms(1,2)] assms(3)])

lemma bytes_of_one: "bytes_of_uint32 1 = [1, 0, 0, 0]"
  by (simp add: bytes_of_uint32_def)

lemma uint32_of_one: "uint32_of_bytes [1, 0, 0, 0] = 1"
  by (simp add: uint32_of_bytes_def)

lemma msip_translation: "rocket_addr_to_uio_offset ROCKET_CLINT_BASE = (UIO_CLINT_OFFSET, [])"
  by (simp add: rocket_addr_to_uio_offset_def layout_defs)

lemma msip_valid:
  "fst (is_valid_address h ROCKET_CLINT_BASE 4) = (0x3fffe004 \<le> uio_size h)"
  using msip_translation by (simp add: validation_by_region region_of_def layout_defs)

lemma reset_unfolded:
  "reset h w =
     write_chunk h ROCKET_CLINT_BASE 4 (bytes_of_uint32 1)
       (fprintf (Msg_trigger ROCKET_CLINT_BASE UIO_CLINT_OFFSET) w)"
  by (simp add: reset_def msip_translation fprintfs_Nil)

lemma sys_simps:
  "sys_open path w =
     (os_open w path,
      if 0 \<le> os_open w path
      then (emit (Sys_open path) w)\<lparr>open_fds := insert (os_open w path) (open_fds w)\<rparr>
      else emit (Sys_open path) w)"
  "sys_mmap n fd w =
     (os_mmap w n fd,
      if os_mmap w n fd \<noteq> MAP_FAILED
      then (emit (Sys_mmap n fd) w)\<lparr>mappings := insert (os_mmap w n fd, n) (mappings w)\<rparr>
      else emit (Sys_mmap n fd) w)"
  by (simp_all add: sys_open_def sys_mmap_def Let_def emit_def)

text \<open>
Evaluations on the concrete instance.
\<close>

lemma first_word_valid: "fst (is_valid_address default_htif 0x80000000 2)"
  by (simp add: validation_by_region translation_by_region region_of_def layout_defs instance_defs)

lemma first_word_offset: "fst (rocket_addr_to_uio_offset 0x80000000) = 0"
  by (simp add: translation_by_region region_of_def layout_defs)

lemma zero_invalid: "\<not> fst (is_valid_address default_htif 0 4)"
  by (simp add: validation_by_region region_of_def layout_defs)

lemma wrapped_access_valid: "fst (is_valid_address default_htif 0xFFFFFFFFFFFFFFF8 0x80000008)"
  by (simp add: validation_by_region translation_by_region region_of_def layout_defs instance_defs)

lemma wrapped_access_outside:
  "\<not> in_mapping (uio_size default_htif)
       (fst (rocket_addr_to_uio_offset 0xFFFFFFFFFFFFFFF8)) 0x80000008"
  by (simp add: in_mapping_def translation_by_region region_of_def layout_defs instance_defs)

lemma length_zero_buffer: "length (zero_buffer len) = unat len"
  by (simp add: zero_buffer_def)

section \<open>The claims\<close>

subsection \<open>C1\<close>

text \<open>
  C1. The claim: for every address and length, \<open>is_valid_address\<close> returns true if and
  only if the address translates to one of the three regions, the translated window
  offset plus the length does not exceed \<open>uio_size\<close>, and the address plus the length
  does not exceed the region's upper bound (\<open>spec_validate\<close>).
  The code forms the sums in 64 bits. With the default sizes, for the address
  \<open>0xFFFFFFFFFFFFFFF8\<close>, which translates to main memory, and the length \<open>0x80000008\<close>,
  the offset \<open>0xFFFFFFFF7FFFFFF8\<close> plus the length wraps to 0, both comparisons pass and
  the code answers true, although offset plus length is \<open>2 ^ 64\<close> and so exceeds the
  window. Lemma \<open>validate_exact\<close> is the equivalence wherever no sum wraps.
\<close>

theorem validate_accepts_wrapped_main_memory_access:
  "region_of 0xFFFFFFFFFFFFFFF8 = Some Main_memory \<and>
   fst (is_valid_address default_htif 0xFFFFFFFFFFFFFFF8 0x80000008) \<and>
   \<not> spec_validate default_htif 0xFFFFFFFFFFFFFFF8 0x80000008"
  by (simp add: validation_by_region translation_by_region spec_validate_def region_end_def
      region_of_def layout_defs instance_defs)

subsection \<open>C2\<close>

text \<open>
  C2. The claim: whenever the address lies inside a region and the address plus the
  length, in exact arithmetic, exceeds that region's upper boundary, \<open>is_valid_address\<close>
  returns false.
  With the default sizes, the address \<open>0x1000\<close> is the first byte of the boot ROM, whose
  boundary is \<open>0x3000\<close>. For the length \<open>0xFFFFFFFFFFFFF000\<close> the exact sum is
  \<open>2 ^ 64\<close>, far beyond the boundary, yet the code answers true: its 64-bit sum of
  address and length is 0, and its sum of offset and length is \<open>0x3fffb000\<close>.
\<close>

theorem validate_accepts_wrapped_boot_rom_access:
  "region_of 0x1000 = Some Boot_rom \<and>
   region_end default_htif Boot_rom < unat (0x1000 :: addr_t) + unat (0xFFFFFFFFFFFFF000 :: size_t) \<and>
   fst (is_valid_address default_htif 0x1000 0xFFFFFFFFFFFFF000)"
  by (simp add: validation_by_region translation_by_region region_end_def
      region_of_def layout_defs instance_defs)

subsection \<open>C3\<close>

text \<open>
  C3. The claim: for every address below the main-memory base and outside the boot ROM
  and the interrupt-control block, or above the end of the last region,
  \<open>is_valid_address\<close> returns false for every length and a warning is recorded.
  Above the end of main memory no warning is recorded, since the translation takes every
  address from \<open>0x80000000\<close> upwards for main memory: with the default sizes main memory
  ends at \<open>0xBFFFC000\<close>, and validating 4 bytes at \<open>0xC0000000\<close> answers false and
  prints nothing.
\<close>

theorem no_warning_above_main_memory:
  "region_end default_htif Main_memory < unat (0xC0000000 :: addr_t) \<and>
   \<not> fst (is_valid_address default_htif 0xC0000000 4) \<and>
   snd (is_valid_address default_htif 0xC0000000 4) = []"
  by (simp add: validation_by_region translation_by_region validation_prints translation_prints
      region_end_def region_of_def layout_defs instance_defs)

text \<open>
  C3, as the code has it: for an address that belongs to no region, \<open>is_valid_address\<close>
  returns false for every length and prints the unmapped-address warning once; for an
  address above the end of main memory it prints no warning, and it returns false for
  every length whose sum with the offset stays within 64 bits.
\<close>

theorem unmapped_rejected_with_warning:
  "(region_of a = None \<longrightarrow> is_valid_address h a len = (False, [Warn_unmapped a])) \<and>
   (region_end h Main_memory < unat a \<longrightarrow>
      snd (is_valid_address h a len) = [] \<and>
      (no_wrap a len \<longrightarrow> \<not> fst (is_valid_address h a len)))"
proof (intro conjI impI)
  assume "region_of a = None"
  then show "is_valid_address h a len = (False, [Warn_unmapped a])"
    by (simp add: prod_eq_iff unmapped_invalid validation_prints translation_prints)
next
  assume above: "region_end h Main_memory < unat a"
  then have "0x80000000 \<le> unat a" by (simp add: region_end_def ROCKET_DRAM_BASE_def)
  then have reg: "region_of a = Some Main_memory" by (simp add: region_of_cases)
  then show "snd (is_valid_address h a len) = []"
    by (simp add: validation_prints translation_prints)
  assume "no_wrap a len"
  then have "fst (is_valid_address h a len) = spec_validate h a len"
    by (rule validate_exact)
  also from above reg have "\<not> spec_validate h a len"
    by (simp add: spec_validate_def)
  finally show "\<not> fst (is_valid_address h a len)" .
qed

theorem unmapped_rejected_with_warning_witness:
  "region_of 0 = None \<and> is_valid_address default_htif 0 8 = (False, [Warn_unmapped 0]) \<and>
   region_end default_htif Main_memory < unat (0xC0000000 :: addr_t) \<and>
   no_wrap 0xC0000000 8 \<and>
   snd (is_valid_address default_htif 0xC0000000 8) = [] \<and>
   \<not> fst (is_valid_address default_htif 0xC0000000 8)"
proof -
  have r: "region_of 0 = None" by (simp add: region_of_def layout_defs)
  have e: "region_end default_htif Main_memory < unat (0xC0000000 :: addr_t)"
    by (simp add: region_end_def layout_defs instance_defs)
  have n: "no_wrap 0xC0000000 8"
    by (simp add: no_wrap_def translation_by_region region_of_def layout_defs)
  show ?thesis
    using r e n unmapped_rejected_with_warning [where a = 0 and h = default_htif and len = 8]
      unmapped_rejected_with_warning [where a = "0xC0000000" and h = default_htif and len = 8]
    by simp
qed

subsection \<open>C4\<close>

text \<open>
  C4. For every address \<open>a\<close> with \<open>0x80000000 \<le> a < 0x80000000 + dram_size\<close> and every
  length with \<open>a + len \<le> 0x80000000 + dram_size\<close> in exact arithmetic, provided
  \<open>dram_size \<le> uio_size\<close>: the translation yields the offset \<open>a - 0x80000000\<close>, prints
  nothing, and \<open>is_valid_address\<close> returns true.
\<close>

theorem main_memory_access_valid:
  assumes "unat ROCKET_DRAM_BASE \<le> unat a"
    and "unat a < unat ROCKET_DRAM_BASE + unat (dram_size h)"
    and "unat a + unat len \<le> unat ROCKET_DRAM_BASE + unat (dram_size h)"
    and "dram_size h \<le> uio_size h"
  shows "rocket_addr_to_uio_offset a = (a - ROCKET_DRAM_BASE, []) \<and>
         unat (a - ROCKET_DRAM_BASE) = unat a - unat ROCKET_DRAM_BASE \<and>
         fst (is_valid_address h a len)"
proof -
  from assms(1) have reg: "region_of a = Some Main_memory"
    by (simp add: region_of_cases ROCKET_DRAM_BASE_def)
  note off = unat_dram_offset [OF reg]
  from off assms(3) have le: "unat (a - ROCKET_DRAM_BASE) + unat len \<le> unat (dram_size h)"
    by arith
  also have "\<dots> < 2 ^ 64" using unsigned_less [of "dram_size h"] by simp
  finally have nw: "unat (a - ROCKET_DRAM_BASE) + unat len < 2 ^ 64" .
  from assms(4) have "unat (dram_size h) \<le> unat (uio_size h)" by (simp add: word_le_nat_alt)
  with le have "fst (is_valid_address h a len)"
    by (simp add: validation_by_region translation_by_region reg add_le_exact [OF nw])
  with reg off show ?thesis
    by (simp add: prod_eq_iff translation_by_region translation_prints)
qed

theorem main_memory_access_valid_witness:
  "rocket_addr_to_uio_offset 0x80001000 = (0x1000, []) \<and>
   fst (is_valid_address default_htif 0x80001000 0x3fffb000)"
proof -
  have "unat ROCKET_DRAM_BASE \<le> unat (0x80001000 :: addr_t)"
    and "unat (0x80001000 :: addr_t) < unat ROCKET_DRAM_BASE + unat (dram_size default_htif)"
    and "unat (0x80001000 :: addr_t) + unat (0x3fffb000 :: size_t)
           \<le> unat ROCKET_DRAM_BASE + unat (dram_size default_htif)"
    and "dram_size default_htif \<le> uio_size default_htif"
    by (simp_all add: layout_defs instance_defs)
  from main_memory_access_valid [OF this] show ?thesis
    by (simp add: ROCKET_DRAM_BASE_def)
qed

subsection \<open>C5\<close>

text \<open>
  C5. The claim: each of \<open>read_chunk\<close>, \<open>write_chunk\<close> and \<open>clear_chunk\<close> is all or
  nothing: when \<open>is_valid_address\<close> is false it throws the out-of-bounds error and leaves
  the window unchanged, and when it is true it completes, write and clear with the fence.
  The first half holds (lemma \<open>rejected_access_untouched\<close>). The second fails where
  the bounds check wraps: with the default sizes the access of \<open>0x80000008\<close> bytes at
  \<open>0xFFFFFFFFFFFFFFF8\<close> is accepted, its translated offset \<open>0xFFFFFFFF7FFFFFF8\<close> lies
  outside the mapping of \<open>0x40000000\<close> bytes, and each of the three operations passes
  it to \<open>memcpy\<close> or \<open>memset\<close>, which faults: the operation neither throws its error
  nor completes, and write and clear never reach the fence. Where no sum of the check
  wraps the second half holds as well (lemmas \<open>accepted_read_completes\<close>,
  \<open>accepted_write_completes\<close>, \<open>accepted_clear_completes\<close>).
\<close>

theorem accepted_wrapped_access_faults:
  "fst (is_valid_address default_htif 0xFFFFFFFFFFFFFFF8 0x80000008) \<and>
   \<not> in_mapping (uio_size default_htif)
       (fst (rocket_addr_to_uio_offset 0xFFFFFFFFFFFFFFF8)) 0x80000008 \<and>
   fst (read_chunk default_htif 0xFFFFFFFFFFFFFFF8 0x80000008 quiet_world) = Inl Memory_fault \<and>
   fst (write_chunk default_htif 0xFFFFFFFFFFFFFFF8 0x80000008 (zero_buffer 0x80000008) quiet_world)
     = Inl Memory_fault \<and>
   Fence \<notin> set (trace (snd (write_chunk default_htif 0xFFFFFFFFFFFFFFF8 0x80000008
                                (zero_buffer 0x80000008) quiet_world))) \<and>
   fst (clear_chunk default_htif 0xFFFFFFFFFFFFFFF8 0x80000008 quiet_world) = Inl Memory_fault \<and>
   Fence \<notin> set (trace (snd (clear_chunk default_htif 0xFFFFFFFFFFFFFFF8 0x80000008 quiet_world)))"
  using wrapped_access_valid wrapped_access_outside
  by (simp add: read_chunk_fault write_chunk_fault clear_chunk_fault quiet_world_def)

subsection \<open>C6\<close>

text \<open>
  C6. The claim: for every address and length that \<open>is_valid_address\<close> accepts and every
  source buffer of that length, \<open>write_chunk\<close> followed by \<open>read_chunk\<close> of the same range
  returns the source.
  With the default sizes the access of \<open>0x80000008\<close> bytes at \<open>0xFFFFFFFFFFFFFFF8\<close> is
  accepted because the sums of the bounds check wrap. For a source buffer of that many
  bytes \<open>write_chunk\<close> faults in \<open>memcpy\<close> outside the mapping, and so does the
  \<open>read_chunk\<close> after it: nothing is read back. Where no sum of the check wraps the
  round trip holds (lemma \<open>round_trip_without_wrap\<close>).
\<close>

theorem no_round_trip_for_wrapped_access:
  "fst (is_valid_address default_htif 0xFFFFFFFFFFFFFFF8 0x80000008) \<and>
   length (zero_buffer 0x80000008) = unat (0x80000008 :: size_t) \<and>
   fst (read_chunk default_htif 0xFFFFFFFFFFFFFFF8 0x80000008
          (snd (write_chunk default_htif 0xFFFFFFFFFFFFFFF8 0x80000008
                  (zero_buffer 0x80000008) quiet_world)))
     = Inl Memory_fault \<and>
   fst (read_chunk default_htif 0xFFFFFFFFFFFFFFF8 0x80000008
          (snd (write_chunk default_htif 0xFFFFFFFFFFFFFFF8 0x80000008
                  (zero_buffer 0x80000008) quiet_world)))
     \<noteq> Inr (zero_buffer 0x80000008)"
  using wrapped_access_valid wrapped_access_outside
  by (simp add: read_chunk_fault write_chunk_fault length_zero_buffer)

subsection \<open>C7\<close>

text \<open>
  C7. The claim: \<open>reset\<close> performs exactly one write of the 4-byte value 1 at the
  interrupt-control block's offset 0 (address \<open>0x2000000\<close>, window offset
  \<open>0x3fffe000\<close>), followed by exactly one fence, and reading the 4 bytes back yields 1.
  The write goes through the bounds check of \<open>write_chunk\<close>: behind a window of one page
  (\<open>+uio_size=0x1000\<close>) \<open>reset\<close> throws and writes nothing.
\<close>

theorem reset_raises_behind_small_window:
  "fst (reset small_htif small_world) = Inl (Runtime_error ''Write address out of bounds'') \<and>
   trace (snd (reset small_htif small_world)) = []"
proof -
  have "\<not> fst (is_valid_address small_htif ROCKET_CLINT_BASE 4)"
    by (simp add: msip_valid instance_defs)
  then show ?thesis
    by (simp add: reset_unfolded write_chunk_invalid small_world_def quiet_world_def)
qed

text \<open>
  C7, as the code has it: \<open>reset\<close> is one line on \<open>stderr\<close> and one call of
  \<open>write_chunk\<close> with the address \<open>0x2000000\<close>, the length 4 and the bytes of the
  value 1, and nothing else. When the window reaches the end of that word
  (\<open>0x3fffe004 \<le> uio_size\<close>, as with the default size) it performs exactly one store at
  window offset \<open>0x3fffe000\<close> followed by exactly one fence, and reading the 4 bytes back
  yields the bytes of the value 1. Otherwise it throws the write's out-of-bounds error
  and leaves the window alone.
\<close>

theorem reset_is_one_write:
  "reset h w =
     write_chunk h ROCKET_CLINT_BASE 4 (bytes_of_uint32 1)
       (fprintf (Msg_trigger ROCKET_CLINT_BASE UIO_CLINT_OFFSET) w) \<and>
   (0x3fffe004 \<le> uio_size h \<longrightarrow>
      fst (reset h w) = Inr () \<and>
      trace (snd (reset h w)) = trace w @ [Store UIO_CLINT_OFFSET (bytes_of_uint32 1), Fence] \<and>
      window (snd (reset h w)) =
        (\<lambda>p. if p - UIO_CLINT_OFFSET < 4 then bytes_of_uint32 1 ! unat (p - UIO_CLINT_OFFSET)
              else window w p) \<and>
      fst (read_chunk h ROCKET_CLINT_BASE 4 (snd (reset h w))) = Inr (bytes_of_uint32 1) \<and>
      uint32_of_bytes (bytes_of_uint32 1) = 1) \<and>
   (\<not> 0x3fffe004 \<le> uio_size h \<longrightarrow>
      fst (reset h w) = Inl (Runtime_error ''Write address out of bounds'') \<and>
      trace (snd (reset h w)) = trace w \<and>
      window (snd (reset h w)) = window w)"
proof (intro conjI impI)
  show "reset h w =
     write_chunk h ROCKET_CLINT_BASE 4 (bytes_of_uint32 1)
       (fprintf (Msg_trigger ROCKET_CLINT_BASE UIO_CLINT_OFFSET) w)"
    by (rule reset_unfolded)
next
  assume big: "0x3fffe004 \<le> uio_size h"
  then have ok: "fst (is_valid_address h ROCKET_CLINT_BASE 4)" by (simp add: msip_valid)
  from big have inm: "in_mapping (uio_size h) (fst (rocket_addr_to_uio_offset ROCKET_CLINT_BASE)) 4"
    by (simp add: msip_translation in_mapping_def UIO_CLINT_OFFSET_def word_le_nat_alt)
  have r: "reset h w =
    (Inr (), emit Fence (emit (Store UIO_CLINT_OFFSET [1, 0, 0, 0])
       ((fprintf (Msg_trigger ROCKET_CLINT_BASE UIO_CLINT_OFFSET) w)
          \<lparr>window := (\<lambda>p. if p - UIO_CLINT_OFFSET < 4 then [1, 0, 0, 0] ! unat (p - UIO_CLINT_OFFSET)
                           else window w p)\<rparr>)))"
    using write_chunk_valid [OF ok inm, where src = "[1, 0, 0, 0]"]
    by (simp add: reset_unfolded msip_translation bytes_of_one cong: if_cong)
  show "fst (reset h w) = Inr ()"
    and "trace (snd (reset h w)) = trace w @ [Store UIO_CLINT_OFFSET (bytes_of_uint32 1), Fence]"
    and "window (snd (reset h w)) =
        (\<lambda>p. if p - UIO_CLINT_OFFSET < 4 then bytes_of_uint32 1 ! unat (p - UIO_CLINT_OFFSET)
              else window w p)"
    by (simp_all add: r bytes_of_one cong: if_cong)
  have "length [1, 0, 0, 0 :: byte] = unat (4 :: size_t)" by simp
  from round_trip_in_mapping(2) [OF ok inm this]
  show "fst (read_chunk h ROCKET_CLINT_BASE 4 (snd (reset h w))) = Inr (bytes_of_uint32 1)"
    by (simp add: reset_unfolded bytes_of_one)
  show "uint32_of_bytes (bytes_of_uint32 1) = 1" by (simp add: bytes_of_one uint32_of_one)
next
  assume "\<not> 0x3fffe004 \<le> uio_size h"
  then have inv: "\<not> fst (is_valid_address h ROCKET_CLINT_BASE 4)" by (simp add: msip_valid)
  show "fst (reset h w) = Inl (Runtime_error ''Write address out of bounds'')"
    and "trace (snd (reset h w)) = trace w"
    and "window (snd (reset h w)) = window w"
    by (simp_all add: reset_unfolded write_chunk_invalid [OF inv])
qed

theorem reset_is_one_write_witness:
  "0x3fffe004 \<le> uio_size default_htif \<and>
   fst (reset default_htif quiet_world) = Inr () \<and>
   trace (snd (reset default_htif quiet_world)) = [Store 0x3fffe000 [1, 0, 0, 0], Fence] \<and>
   fst (read_chunk default_htif 0x2000000 4 (snd (reset default_htif quiet_world))) =
     Inr [1, 0, 0, 0] \<and>
   \<not> 0x3fffe004 \<le> uio_size small_htif \<and>
   fst (reset small_htif small_world) = Inl (Runtime_error ''Write address out of bounds'')"
proof -
  have big: "0x3fffe004 \<le> uio_size default_htif" by (simp add: instance_defs)
  have small: "\<not> 0x3fffe004 \<le> uio_size small_htif" by (simp add: instance_defs)
  from big small reset_is_one_write [of default_htif quiet_world, THEN conjunct2]
    reset_is_one_write [of small_htif small_world, THEN conjunct2]
  show ?thesis
    by (simp add: bytes_of_one quiet_world_def layout_defs)
qed

subsection \<open>C8\<close>

text \<open>
  C8. When \<open>open\<close> succeeds and \<open>mmap\<close> fails, \<open>map_uio_device\<close> returns false
  after closing the descriptor it opened: the system calls are \<open>open\<close>, \<open>mmap\<close>,
  \<open>close\<close> in this order, the descriptor is no longer among the open ones, no mapping
  was added, and the field \<open>uio_fd\<close> is \<open>-1\<close>.
\<close>

theorem mmap_failure_closes_handle:
  assumes "0 \<le> os_open w dev" and "os_mmap w sz (os_open w dev) = MAP_FAILED"
  shows "fst (map_uio_device h dev sz w) = (False, h\<lparr>uio_base := MAP_FAILED, uio_fd := - 1\<rparr>) \<and>
         trace (snd (map_uio_device h dev sz w)) =
           trace w @ [Sys_open dev, Sys_mmap sz (os_open w dev), Sys_close (os_open w dev)] \<and>
         open_fds (snd (map_uio_device h dev sz w)) = open_fds w - {os_open w dev} \<and>
         mappings (snd (map_uio_device h dev sz w)) = mappings w \<and>
         stderr (snd (map_uio_device h dev sz w)) = stderr w @ [Err_mapping dev]"
  using assms
  by (simp add: map_uio_device_def sys_simps sys_close_def emit_def fprintf_def Let_def)

theorem mmap_failure_closes_handle_witness:
  "0 \<le> os_open quiet_world ''/dev/uio0'' \<and>
   os_mmap quiet_world default_total_size (os_open quiet_world ''/dev/uio0'') = MAP_FAILED \<and>
   fst (fst (map_uio_device constructed ''/dev/uio0'' default_total_size quiet_world)) = False \<and>
   uio_fd (snd (fst (map_uio_device constructed ''/dev/uio0'' default_total_size quiet_world))) = - 1 \<and>
   trace (snd (map_uio_device constructed ''/dev/uio0'' default_total_size quiet_world)) =
     [Sys_open ''/dev/uio0'', Sys_mmap default_total_size 4, Sys_close 4] \<and>
   open_fds (snd (map_uio_device constructed ''/dev/uio0'' default_total_size quiet_world)) = {3}"
proof -
  have o: "0 \<le> os_open quiet_world ''/dev/uio0''" by (simp add: quiet_world_def)
  have m: "os_mmap quiet_world default_total_size (os_open quiet_world ''/dev/uio0'') = MAP_FAILED"
    by (simp add: quiet_world_def)
  from mmap_failure_closes_handle [OF o m, of constructed] o m show ?thesis
    by (simp add: quiet_world_def)
qed

subsection \<open>C9\<close>

text \<open>
  C9. \<open>unmap_uio\<close> is idempotent: from any state, a second call changes neither the
  object nor the world, so nothing is unmapped or closed twice. One call unmaps exactly
  when \<open>uio_base\<close> is neither null nor \<open>MAP_FAILED\<close> and closes exactly when
  \<open>uio_fd\<close> is not negative. On a freshly constructed object, and on the object that a
  failed \<open>map_uio_device\<close> leaves behind, it does nothing.
\<close>

theorem unmap_uio_idempotent:
  "unmap_uio (fst (unmap_uio h w)) (snd (unmap_uio h w)) = unmap_uio h w \<and>
   trace (snd (unmap_uio h w)) =
     trace w
     @ (if uio_base h \<noteq> nullptr \<and> uio_base h \<noteq> MAP_FAILED
        then [Sys_munmap (uio_base h) (uio_size h)] else [])
     @ (if 0 \<le> uio_fd h then [Sys_close (uio_fd h)] else []) \<and>
   unmap_uio constructed w = (constructed, w) \<and>
   (\<not> fst (fst (map_uio_device constructed dev sz w)) \<longrightarrow>
      unmap_uio (snd (fst (map_uio_device constructed dev sz w))) (snd (map_uio_device constructed dev sz w))
        = (snd (fst (map_uio_device constructed dev sz w)), snd (map_uio_device constructed dev sz w)))"
proof (intro conjI impI)
  show "unmap_uio (fst (unmap_uio h w)) (snd (unmap_uio h w)) = unmap_uio h w"
    by (simp add: unmap_uio_def sys_munmap_def sys_close_def emit_def nullptr_def MAP_FAILED_def)
  show "trace (snd (unmap_uio h w)) =
     trace w
     @ (if uio_base h \<noteq> nullptr \<and> uio_base h \<noteq> MAP_FAILED
        then [Sys_munmap (uio_base h) (uio_size h)] else [])
     @ (if 0 \<le> uio_fd h then [Sys_close (uio_fd h)] else [])"
    by (simp add: unmap_uio_def sys_munmap_def sys_close_def emit_def)
  show "unmap_uio constructed w = (constructed, w)"
    by (simp add: unmap_uio_def constructed_def)
next
  assume "\<not> fst (fst (map_uio_device constructed dev sz w))"
  then show "unmap_uio (snd (fst (map_uio_device constructed dev sz w))) (snd (map_uio_device constructed dev sz w))
        = (snd (fst (map_uio_device constructed dev sz w)), snd (map_uio_device constructed dev sz w))"
    by (simp add: map_uio_device_def unmap_uio_def constructed_def sys_simps Let_def nullptr_def
        MAP_FAILED_def split: if_splits)
qed

theorem unmap_uio_idempotent_witness:
  "trace (snd (unmap_uio default_htif quiet_world)) =
     [Sys_munmap 0x7f0000000000 default_total_size, Sys_close 3] \<and>
   unmap_uio (fst (unmap_uio default_htif quiet_world)) (snd (unmap_uio default_htif quiet_world))
     = unmap_uio default_htif quiet_world \<and>
   \<not> fst (fst (map_uio_device constructed ''/dev/uio0'' default_total_size quiet_world)) \<and>
   trace (snd (unmap_uio
     (snd (fst (map_uio_device constructed ''/dev/uio0'' default_total_size quiet_world)))
     (snd (map_uio_device constructed ''/dev/uio0'' default_total_size quiet_world)))) =
     [Sys_open ''/dev/uio0'', Sys_mmap default_total_size 4, Sys_close 4]"
proof -
  have f: "\<not> fst (fst (map_uio_device constructed ''/dev/uio0'' default_total_size quiet_world))"
    and t: "trace (snd (map_uio_device constructed ''/dev/uio0'' default_total_size quiet_world)) =
     [Sys_open ''/dev/uio0'', Sys_mmap default_total_size 4, Sys_close 4]"
    by (simp_all add: map_uio_device_def sys_simps sys_close_def quiet_world_def Let_def emit_def fprintf_def)
  from f t
    unmap_uio_idempotent [where h = default_htif and w = quiet_world and dev = "''/dev/uio0''"
      and sz = default_total_size]
  show ?thesis
    by (simp add: instance_defs quiet_world_def nullptr_def MAP_FAILED_def)
qed

subsection \<open>C10\<close>

text \<open>
  C10. The translation takes every address from \<open>0x80000000\<close> upwards for main memory:
  it returns the address minus \<open>0x80000000\<close> and prints no warning, without looking at
  \<open>dram_size\<close>. For such an address \<open>is_valid_address\<close> is decided by its two length
  checks alone, the offset plus the length against \<open>uio_size\<close> and against
  \<open>dram_size\<close>, in 64-bit arithmetic.
\<close>

theorem translation_unbounded_above:
  assumes "ROCKET_DRAM_BASE \<le> a"
  shows "rocket_addr_to_uio_offset a = (a - ROCKET_DRAM_BASE, []) \<and>
         is_valid_address h a len =
           (a - ROCKET_DRAM_BASE + len \<le> uio_size h \<and> a - ROCKET_DRAM_BASE + len \<le> dram_size h, [])"
proof -
  from assms have reg: "region_of a = Some Main_memory"
    by (simp add: region_of_cases ROCKET_DRAM_BASE_def word_le_nat_alt)
  then show ?thesis
    by (simp add: prod_eq_iff translation_by_region translation_prints validation_by_region
        validation_prints)
qed

theorem translation_unbounded_above_witness:
  "unat ROCKET_DRAM_BASE + unat (dram_size default_htif) < unat (0xF0000000 :: addr_t) \<and>
   rocket_addr_to_uio_offset 0xF0000000 = (0x70000000, []) \<and>
   is_valid_address default_htif 0xF0000000 0 = (False, [])"
proof -
  have "ROCKET_DRAM_BASE \<le> 0xF0000000" by (simp add: ROCKET_DRAM_BASE_def)
  from translation_unbounded_above [OF this, where h = default_htif and len = 0] show ?thesis
    by (simp add: layout_defs instance_defs)
qed

end
